theory Spec2Isabelle
  imports Complex_Main "HOL-Library.Sublist"
begin

section \<open>Python strings\<close>

text \<open>
  A Python \<open>str\<close> is a sequence of Unicode code points, so it is modelled as a list of
  natural numbers; \<open>str\<close> turns an ASCII literal into that representation.  The emoji of
  the source's messages are written as their code points.
\<close>

type_synonym pstr = "nat list"

definition str :: "string \<Rightarrow> pstr" where
  "str s = map of_char s"

text \<open>The characters \<open>str.strip()\<close> removes: those for which \<open>str.isspace\<close> holds.\<close>

definition is_space :: "nat \<Rightarrow> bool" where
  "is_space c \<longleftrightarrow>
     (9 \<le> c \<and> c \<le> 13) \<or> (28 \<le> c \<and> c \<le> 32) \<or> c = 133 \<or> c = 160 \<or> c = 5760 \<or>
     (8192 \<le> c \<and> c \<le> 8202) \<or> c = 8232 \<or> c = 8233 \<or> c = 8239 \<or> c = 8287 \<or> c = 12288"

definition strip :: "pstr \<Rightarrow> pstr" where
  "strip s = rev (dropWhile is_space (rev (dropWhile is_space s)))"

definition startswith :: "pstr \<Rightarrow> pstr \<Rightarrow> bool" where
  "startswith s p = prefix p s"

text \<open>\<open>sub in s\<close> on strings: \<open>sub\<close> occurs in \<open>s\<close> as a contiguous block.\<close>

definition str_in :: "pstr \<Rightarrow> pstr \<Rightarrow> bool" where
  "str_in sub s = sublist sub s"

text \<open>
  \<open>s.split(sep)\<close> for a one-character separator.  The result is never empty
  (\<open>''''.split(sep) = ['''']\<close>), so the second case of the \<open>case\<close> does not arise.
\<close>

fun split :: "nat \<Rightarrow> pstr \<Rightarrow> pstr list" where
  "split sep [] = [[]]"
| "split sep (c # cs) =
     (if c = sep then [] # split sep cs
      else (case split sep cs of
              l # ls \<Rightarrow> (c # l) # ls
            | [] \<Rightarrow> [[c]]))"

text \<open>\<open>sep.join(xs)\<close>.\<close>

fun join :: "pstr \<Rightarrow> pstr list \<Rightarrow> pstr" where
  "join sep [] = []"
| "join sep [x] = x"
| "join sep (x # y # ys) = x @ sep @ join sep (y # ys)"

text \<open>
  \<open>s.replace(old, new)\<close>: the occurrences of \<open>old\<close> are found from the left and do not
  overlap.  For an empty \<open>old\<close> Python puts \<open>new\<close> before every character and at the end.
\<close>

function replace :: "pstr \<Rightarrow> pstr \<Rightarrow> pstr \<Rightarrow> pstr" where
  "replace s old new =
     (if old = [] then new @ concat (map (\<lambda>c. c # new) s)
      else if s = [] then []
      else if startswith s old then new @ replace (drop (length old) s) old new
      else hd s # replace (tl s) old new)"
  by pat_completeness auto
termination
  by (relation "measure (\<lambda>(s, old, new). length s)") auto

declare replace.simps [simp del]

text \<open>
  \<open>s.capitalize()\<close> on ASCII letters: the first character in upper case, the others in
  lower case.  The source applies it to the role names \<open>user\<close> and \<open>assistant\<close> only.
\<close>

definition upper :: "nat \<Rightarrow> nat" where
  "upper c = (if 97 \<le> c \<and> c \<le> 122 then c - 32 else c)"

definition lower :: "nat \<Rightarrow> nat" where
  "lower c = (if 65 \<le> c \<and> c \<le> 90 then c + 32 else c)"

definition capitalize :: "pstr \<Rightarrow> pstr" where
  "capitalize s = (case s of [] \<Rightarrow> [] | c # cs \<Rightarrow> upper c # map lower cs)"

text \<open>\<open>str(n)\<close> of an integer, as an f-string formats the status code.\<close>

function str_nat :: "nat \<Rightarrow> pstr" where
  "str_nat n = (if n < 10 then [48 + n] else str_nat (n div 10) @ [48 + n mod 10])"
  by pat_completeness auto
termination
  by (relation "measure id") auto

declare str_nat.simps [simp del]

definition str_int :: "int \<Rightarrow> pstr" where
  "str_int i = (if i < 0 then 45 # str_nat (nat (- i)) else str_nat (nat i))"

section \<open>Decoded JSON and the operations the source applies to it\<close>

text \<open>
  What \<open>response.json()\<close> can return.  An object is a \<open>dict\<close>, kept as the list of its
  items (a \<open>dict\<close> has each key once; \<open>map_of\<close> reads it).  A float is a rational or one
  of the three non-finite values that Python's decoder accepts.
\<close>

datatype pyfloat = Finite rat | PosInf | NegInf | NaN

datatype json =
    JNull
  | JBool bool
  | JInt int
  | JFloat pyfloat
  | JStr pstr
  | JArr "json list"
  | JObj "(pstr \<times> json) list"

text \<open>
  The exceptions of class \<open>Exception\<close> that can reach the two handlers, each with the
  text \<open>str(e)\<close> gives.  \<open>RequestException\<close> stands for \<open>requests.exceptions.RequestException\<close>
  and its subclasses; \<open>OtherException\<close> for any other exception the \<open>requests\<close> library
  lets through.
\<close>

datatype exn =
    RequestException pstr
  | TypeError pstr
  | KeyError pstr
  | IndexError pstr
  | AttributeError pstr
  | OtherException pstr

fun exn_str :: "exn \<Rightarrow> pstr" where
  "exn_str (RequestException m) = m"
| "exn_str (TypeError m) = m"
| "exn_str (KeyError m) = m"
| "exn_str (IndexError m) = m"
| "exn_str (AttributeError m) = m"
| "exn_str (OtherException m) = m"

text \<open>
  The interpreter decides two texts the source only passes on: \<open>str(result)\<close> of a decoded
  body, and the message of an error it raises itself.  Both are parameters of the model.
\<close>

datatype fault =
    NotContainer json
  | BadSubscript json json
  | NoLen json
  | NoAttribute json string

record interp =
  str_json :: "json \<Rightarrow> pstr"
  fault_text :: "fault \<Rightarrow> pstr"

text \<open>Truth value of an object, as \<open>if message_content:\<close> tests it.\<close>

fun truthy :: "json \<Rightarrow> bool" where
  "truthy JNull = False"
| "truthy (JBool b) = b"
| "truthy (JInt i) = (i \<noteq> 0)"
| "truthy (JFloat f) = (f \<noteq> Finite 0)"
| "truthy (JStr s) = (s \<noteq> [])"
| "truthy (JArr vs) = (vs \<noteq> [])"
| "truthy (JObj kvs) = (kvs \<noteq> [])"

text \<open>\<open>key in v\<close> for a string \<open>key\<close>.\<close>

fun py_in :: "interp \<Rightarrow> pstr \<Rightarrow> json \<Rightarrow> exn + bool" where
  "py_in rt k (JObj kvs) = Inr (map_of kvs k \<noteq> None)"
| "py_in rt k (JArr vs) = Inr (JStr k \<in> set vs)"
| "py_in rt k (JStr s) = Inr (str_in k s)"
| "py_in rt k v = Inl (TypeError (fault_text rt (NotContainer v)))"

text \<open>\<open>v[key]\<close> for a string \<open>key\<close>.\<close>

fun getitem_str :: "interp \<Rightarrow> json \<Rightarrow> pstr \<Rightarrow> exn + json" where
  "getitem_str rt (JObj kvs) k =
     (case map_of kvs k of
        Some v \<Rightarrow> Inr v
      | None \<Rightarrow> Inl (KeyError (fault_text rt (BadSubscript (JObj kvs) (JStr k)))))"
| "getitem_str rt v k = Inl (TypeError (fault_text rt (BadSubscript v (JStr k))))"

text \<open>\<open>len(v)\<close>.\<close>

fun py_len :: "interp \<Rightarrow> json \<Rightarrow> exn + nat" where
  "py_len rt (JStr s) = Inr (length s)"
| "py_len rt (JArr vs) = Inr (length vs)"
| "py_len rt (JObj kvs) = Inr (length kvs)"
| "py_len rt v = Inl (TypeError (fault_text rt (NoLen v)))"

text \<open>\<open>v[0]\<close>.  The keys of a decoded object are strings, so \<open>0\<close> is never among them.\<close>

fun getitem_0 :: "interp \<Rightarrow> json \<Rightarrow> exn + json" where
  "getitem_0 rt (JArr (x # xs)) = Inr x"
| "getitem_0 rt (JArr []) = Inl (IndexError (fault_text rt (BadSubscript (JArr []) (JInt 0))))"
| "getitem_0 rt (JStr (c # cs)) = Inr (JStr [c])"
| "getitem_0 rt (JStr []) = Inl (IndexError (fault_text rt (BadSubscript (JStr []) (JInt 0))))"
| "getitem_0 rt (JObj kvs) = Inl (KeyError (fault_text rt (BadSubscript (JObj kvs) (JInt 0))))"
| "getitem_0 rt v = Inl (TypeError (fault_text rt (BadSubscript v (JInt 0))))"

text \<open>\<open>v.get(key, default)\<close>: only a \<open>dict\<close> has the method.\<close>

fun py_get :: "interp \<Rightarrow> json \<Rightarrow> pstr \<Rightarrow> json \<Rightarrow> exn + json" where
  "py_get rt (JObj kvs) k d = Inr (case map_of kvs k of Some v \<Rightarrow> v | None \<Rightarrow> d)"
| "py_get rt v k d = Inl (AttributeError (fault_text rt (NoAttribute v ''get'')))"

text \<open>\<open>v.strip()\<close>: only a \<open>str\<close> has the method.\<close>

fun py_strip :: "interp \<Rightarrow> json \<Rightarrow> exn + pstr" where
  "py_strip rt (JStr s) = Inr (strip s)"
| "py_strip rt v = Inl (AttributeError (fault_text rt (NoAttribute v ''strip'')))"

section \<open>Configuration, messages and the HTTP exchange\<close>

text \<open>The three module-level settings read from the environment; \<open>os.getenv\<close> gives
  \<open>None\<close> for a variable that is not set and has no default.\<close>

record config =
  HF_API_KEY :: "pstr option"
  API_URL :: pstr
  MODEL_NAME :: pstr

text \<open>\<open>if HF_API_KEY\<close>: \<open>None\<close> and the empty string are both false.\<close>

definition key_set :: "config \<Rightarrow> bool" where
  "key_set cfg = (case HF_API_KEY cfg of None \<Rightarrow> False | Some k \<Rightarrow> k \<noteq> [])"

record message =
  role :: pstr
  content :: pstr

record payload =
  model :: pstr
  messages :: "message list"
  max_tokens :: int
  temperature :: rat
  top_p :: rat
  stream :: bool

record request =
  req_url :: pstr
  req_headers :: "(pstr \<times> pstr) list"
  req_json :: payload
  req_timeout :: int

text \<open>
  A response as the source reads it: the status code, the reason phrase and URL that
  \<open>raise_for_status\<close> puts into its message, and what \<open>response.json()\<close> does (it returns
  the decoded body or raises).
\<close>

record response =
  status_code :: int
  reason :: pstr
  url :: pstr
  json_result :: "exn + json"

text \<open>\<open>requests.post\<close>: for each request the endpoint either raises or answers.\<close>

type_synonym endpoint = "request \<Rightarrow> exn + response"

text \<open>
  \<open>Response.raise_for_status\<close> of the \<open>requests\<close> library: an \<open>HTTPError\<close> (a
  \<open>RequestException\<close>) for a status from 400 to 599, nothing otherwise.
\<close>

definition raise_for_status :: "response \<Rightarrow> exn + unit" where
  "raise_for_status r =
     (if 400 \<le> status_code r \<and> status_code r < 500 then
        Inl (RequestException
          (str_int (status_code r) @ str '' Client Error: '' @ reason r @ str '' for url: '' @ url r))
      else if 500 \<le> status_code r \<and> status_code r < 600 then
        Inl (RequestException
          (str_int (status_code r) @ str '' Server Error: '' @ reason r @ str '' for url: '' @ url r))
      else Inr ())"

section \<open>The completion client: \<open>query_huggingface\<close>\<close>

definition SYSTEM_PROMPT :: pstr where
  "SYSTEM_PROMPT = join [10]
    [str ''You are a friendly and knowledgeable stock market analysis assistant designed for beginners. '',
     str ''Your role is to help users understand stock market concepts, analyze stocks, and make informed investment decisions.'',
     [],
     str ''Guidelines:'',
     str ''- Explain concepts in simple, easy-to-understand language'',
     str ''- Use examples and analogies when explaining complex topics'',
     str ''- Provide balanced analysis considering both risks and opportunities'',
     str ''- Always remind users that this is educational information, not financial advice'',
     str ''- Be encouraging and supportive to beginners'',
     str ''- Break down complex topics into digestible parts'',
     str ''- Use bullet points for clarity when listing multiple points'',
     [],
     str ''Topics you can help with:'',
     str ''- Stock fundamentals (P/E ratio, EPS, Market Cap, etc.)'',
     str ''- Technical analysis basics'',
     str ''- Investment strategies'',
     str ''- Market trends and sectors'',
     str ''- Risk management'',
     str ''- Portfolio diversification'',
     str ''- Reading financial statements'',
     str ''- Understanding market news'',
     [],
     str ''Always be helpful, clear, and educational in your responses.'']"

definition config_error_text :: pstr where
  "config_error_text =
     10060 # str '' HF_API_KEY not found in .env file. Please add your Hugging Face API token.''"

definition model_loading_text :: pstr where
  "model_loading_text =
     9203 # str '' Model is currently loading. Please try again in a moment.''"

definition invalid_key_text :: pstr where
  "invalid_key_text =
     10060 # str '' Invalid API key. Please check your HF_API_KEY in the .env file.''"

definition rate_limit_text :: pstr where
  "rate_limit_text =
     [9888, 65039] @ str '' Rate limit reached. Please wait a moment and try again.''"

definition fallback_text :: pstr where
  "fallback_text =
     str ''I apologize, but I couldn't generate a response. Please try rephrasing your question.''"

definition unexpected_format_text :: "pstr \<Rightarrow> pstr" where
  "unexpected_format_text body = [9888, 65039] @ str '' Unexpected response format: '' @ body"

definition auth_failed_text :: pstr where
  "auth_failed_text =
     10060 # str '' Authentication failed. Please verify your HF_API_KEY.''"

definition model_not_found_text :: "pstr \<Rightarrow> pstr" where
  "model_not_found_text name =
     10060 # str '' Model ''
     @ [39] @ name @ [39] @ str '' not found. Please check your MODEL_NAME in .env file.''"

definition connection_error_text :: "pstr \<Rightarrow> pstr" where
  "connection_error_text error_msg =
     [9888, 65039] @ str '' Connection error: '' @ error_msg
     @ [10, 10] @ str ''Please check:''
     @ [10] @ str ''- Your internet connection''
     @ [10] @ str ''- Your HF_API_KEY''
     @ [10] @ str ''- The API endpoint URL''"

definition unexpected_error_text :: "pstr \<Rightarrow> pstr" where
  "unexpected_error_text msg = [9888, 65039] @ str '' Unexpected error: '' @ msg"

text \<open>
  The loop over \<open>history_lines\<close>; \<open>msgs\<close> is the list \<open>messages\<close> that the loop appends to.
\<close>

fun add_history :: "pstr list \<Rightarrow> message list \<Rightarrow> message list" where
  "add_history [] msgs = msgs"
| "add_history (line # rest) msgs =
     (if startswith line (str ''User:'') then
        add_history rest
          (msgs @ [\<lparr>role = str ''user'', content = strip (replace line (str ''User:'') [])\<rparr>])
      else if startswith line (str ''Assistant:'') then
        add_history rest
          (msgs @ [\<lparr>role = str ''assistant'',
                    content = strip (replace line (str ''Assistant:'') [])\<rparr>])
      else add_history rest msgs)"

text \<open>The message sequence of a request: preamble, history, current prompt.\<close>

definition build_messages :: "pstr \<Rightarrow> pstr \<Rightarrow> message list" where
  "build_messages prompt context =
     (let msgs = [\<lparr>role = str ''system'', content = SYSTEM_PROMPT\<rparr>];
          msgs = (if context \<noteq> [] then add_history (split 10 context) msgs else msgs)
      in msgs @ [\<lparr>role = str ''user'', content = prompt\<rparr>])"

definition build_request :: "config \<Rightarrow> pstr \<Rightarrow> pstr \<Rightarrow> request" where
  "build_request cfg prompt context =
     \<lparr>req_url = API_URL cfg,
      req_headers =
        [(str ''Authorization'',
          str ''Bearer '' @ (case HF_API_KEY cfg of None \<Rightarrow> str ''None'' | Some k \<Rightarrow> k)),
         (str ''Content-Type'', str ''application/json'')],
      req_json =
        \<lparr>model = MODEL_NAME cfg,
         messages = build_messages prompt context,
         max_tokens = 512,
         temperature = 7 / 10,
         top_p = 9 / 10,
         stream = False\<rparr>,
      req_timeout = 30\<rparr>"

text \<open>The part of the \<open>try\<close> block that reads the decoded body.\<close>

definition extract_reply :: "interp \<Rightarrow> json \<Rightarrow> exn + pstr" where
  "extract_reply rt result =
     (case py_in rt (str ''choices'') result of
        Inl e \<Rightarrow> Inl e
      | Inr False \<Rightarrow> Inr (unexpected_format_text (str_json rt result))
      | Inr True \<Rightarrow>
          (case getitem_str rt result (str ''choices'') of
             Inl e \<Rightarrow> Inl e
           | Inr choices \<Rightarrow>
               (case py_len rt choices of
                  Inl e \<Rightarrow> Inl e
                | Inr n \<Rightarrow>
                    if n > 0 then
                      (case getitem_0 rt choices of
                         Inl e \<Rightarrow> Inl e
                       | Inr choice \<Rightarrow>
                           (case py_get rt choice (str ''message'') (JObj []) of
                              Inl e \<Rightarrow> Inl e
                            | Inr msg \<Rightarrow>
                                (case py_get rt msg (str ''content'') (JStr []) of
                                   Inl e \<Rightarrow> Inl e
                                 | Inr message_content \<Rightarrow>
                                     if truthy message_content
                                     then py_strip rt message_content
                                     else Inr fallback_text)))
                    else Inr (unexpected_format_text (str_json rt result)))))"

text \<open>The \<open>try\<close> block once \<open>requests.post\<close> has returned a response.\<close>

definition handle_response :: "interp \<Rightarrow> response \<Rightarrow> exn + pstr" where
  "handle_response rt r =
     (if status_code r = 503 then Inr model_loading_text
      else if status_code r = 401 then Inr invalid_key_text
      else if status_code r = 429 then Inr rate_limit_text
      else
        (case raise_for_status r of
           Inl e \<Rightarrow> Inl e
         | Inr _ \<Rightarrow>
             (case json_result r of
                Inl e \<Rightarrow> Inl e
              | Inr result \<Rightarrow> extract_reply rt result)))"

definition try_block :: "interp \<Rightarrow> endpoint \<Rightarrow> request \<Rightarrow> exn + pstr" where
  "try_block rt post req =
     (case post req of Inl e \<Rightarrow> Inl e | Inr r \<Rightarrow> handle_response rt r)"

text \<open>
  The two \<open>except\<close> clauses: the first takes a \<open>RequestException\<close>, the second every other
  \<open>Exception\<close>.
\<close>

fun handlers :: "config \<Rightarrow> exn \<Rightarrow> pstr" where
  "handlers cfg (RequestException error_msg) =
     (if str_in (str ''401'') error_msg then auth_failed_text
      else if str_in (str ''404'') error_msg then model_not_found_text (MODEL_NAME cfg)
      else connection_error_text error_msg)"
| "handlers cfg e = unexpected_error_text (exn_str e)"

text \<open>
  \<open>query_huggingface\<close> returns what the Python function returns, \<open>Inl\<close> being an exception
  that leaves it, together with the requests it has posted, in order.
\<close>

definition query_huggingface ::
    "config \<Rightarrow> interp \<Rightarrow> endpoint \<Rightarrow> pstr \<Rightarrow> pstr \<Rightarrow> (exn + pstr) \<times> request list" where
  "query_huggingface cfg rt post prompt context =
     (if \<not> key_set cfg then (Inr config_error_text, [])
      else
        let req = build_request cfg prompt context in
        (case try_block rt post req of
           Inr text \<Rightarrow> Inr text
         | Inl e \<Rightarrow> Inr (handlers cfg e),
         [req]))"

section \<open>The conversation store and the send handler\<close>

text \<open>The two entries of \<open>st.session_state\<close> the script keeps.\<close>

record session_state =
  ss_messages :: "message list"
  ss_conversation_context :: pstr

definition initial_state :: session_state where
  "initial_state = \<lparr>ss_messages = [], ss_conversation_context = []\<rparr>"

text \<open>The slices \<open>xs[i:]\<close> and \<open>xs[:j]\<close>; a negative index counts from the end.\<close>

definition slice_from :: "int \<Rightarrow> 'a list \<Rightarrow> 'a list" where
  "slice_from i xs =
     (if i < 0 then drop (nat (max 0 (int (length xs) + i))) xs else drop (nat i) xs)"

definition slice_upto :: "int \<Rightarrow> 'a list \<Rightarrow> 'a list" where
  "slice_upto j xs =
     (if j < 0 then take (nat (max 0 (int (length xs) + j))) xs else take (nat j) xs)"

definition context_messages :: "message list \<Rightarrow> message list" where
  "context_messages msgs = (if length msgs > 6 then slice_from (- 6) msgs else msgs)"

definition format_line :: "message \<Rightarrow> pstr" where
  "format_line msg = capitalize (role msg) @ str '': '' @ content msg"

definition build_context :: "message list \<Rightarrow> pstr" where
  "build_context msgs = join [10] (map format_line (slice_upto (- 1) (context_messages msgs)))"

text \<open>
  The block under \<open># Process user input\<close>.  It returns the exception that leaves it, if
  any, the session state it leaves behind and the requests posted.
\<close>

definition process_input ::
    "config \<Rightarrow> interp \<Rightarrow> endpoint \<Rightarrow> bool \<Rightarrow> pstr \<Rightarrow> session_state
      \<Rightarrow> exn option \<times> session_state \<times> request list" where
  "process_input cfg rt post send_button prompt st =
     (if (send_button \<or> prompt \<noteq> []) \<and> prompt \<noteq> [] \<and> key_set cfg then
        let msgs = ss_messages st @ [\<lparr>role = str ''user'', content = prompt\<rparr>];
            context = build_context msgs;
            answer = query_huggingface cfg rt post prompt context
        in (case fst answer of
              Inl e \<Rightarrow> (Some e, st\<lparr>ss_messages := msgs\<rparr>, snd answer)
            | Inr response \<Rightarrow>
                (None,
                 \<lparr>ss_messages = msgs @ [\<lparr>role = str ''assistant'', content = response\<rparr>],
                  ss_conversation_context = context\<rparr>,
                 snd answer))
      else (None, st, []))"

text \<open>The \<open>Clear Conversation\<close> button.\<close>

definition clear_conversation :: "session_state \<Rightarrow> session_state" where
  "clear_conversation st = \<lparr>ss_messages = [], ss_conversation_context = []\<rparr>"

text \<open>
  A session is a sequence of script runs: a run with some input in the text field (typed,
  or put there by an example button) against the endpoint as it behaves then, or a click
  on the clear button.
\<close>

datatype event = Ask bool pstr endpoint | Clear

fun run :: "config \<Rightarrow> interp \<Rightarrow> session_state \<Rightarrow> event list \<Rightarrow> session_state" where
  "run cfg rt st [] = st"
| "run cfg rt st (Ask send_button prompt post # evs) =
     run cfg rt (fst (snd (process_input cfg rt post send_button prompt st))) evs"
| "run cfg rt st (Clear # evs) = run cfg rt (clear_conversation st) evs"

section \<open>Concrete instances for the examples\<close>

text \<open>The configuration with the two defaults of the source and a given \<open>HF_API_KEY\<close>.\<close>

definition default_config :: "pstr option \<Rightarrow> config" where
  "default_config key =
     \<lparr>HF_API_KEY = key,
      API_URL = str ''https://router.huggingface.co/v1/chat/completions'',
      MODEL_NAME = str ''google/gemma-2-2b-it''\<rparr>"

text \<open>
  An interpreter instance for the examples.  \<open>repr_json\<close> is \<open>repr\<close> of a decoded value
  where the model can compute it: for \<open>None\<close>, booleans, integers, strings of printable
  ASCII characters, and lists and dicts of these.  \<open>repr\<close> of a string puts it in single
  quotes, or in double quotes when it contains a single quote and no double quote, and
  puts a backslash before each backslash and each occurrence of the chosen quote.  For a
  float, and for a string with other characters, \<open>repr\<close> depends on the float formatting
  and the Unicode tables of the interpreter; there \<open>repr_json\<close> is \<open>None\<close>.  \<open>show_json\<close>
  is \<open>str\<close>: a string stands for itself, every other value for its \<open>repr\<close>.
\<close>

definition printable_ascii :: "pstr \<Rightarrow> bool" where
  "printable_ascii s = list_all (\<lambda>c. 32 \<le> c \<and> c \<le> 126) s"

definition repr_str :: "pstr \<Rightarrow> pstr" where
  "repr_str s =
     (let q = (if 39 \<in> set s \<and> 34 \<notin> set s then 34 else 39)
      in [q] @ concat (map (\<lambda>c. if c = 92 \<or> c = q then [92, c] else [c]) s) @ [q])"

fun repr_json :: "json \<Rightarrow> pstr option" where
  "repr_json JNull = Some (str ''None'')"
| "repr_json (JBool b) = Some (if b then str ''True'' else str ''False'')"
| "repr_json (JInt i) = Some (str_int i)"
| "repr_json (JFloat f) = None"
| "repr_json (JStr s) = (if printable_ascii s then Some (repr_str s) else None)"
| "repr_json (JArr vs) =
     map_option (\<lambda>rs. str ''['' @ join (str '', '') rs @ str '']'')
       (those (map repr_json vs))"
| "repr_json (JObj kvs) =
     map_option (\<lambda>rs. str ''{'' @ join (str '', '') rs @ str ''}'')
       (those (map (\<lambda>kv. if printable_ascii (fst kv)
                          then map_option (\<lambda>r. repr_str (fst kv) @ str '': '' @ r)
                                 (repr_json (snd kv))
                          else None) kvs))"

definition show_json :: "json \<Rightarrow> pstr option" where
  "show_json v = (case v of JStr s \<Rightarrow> Some s | _ \<Rightarrow> repr_json v)"

text \<open>
  \<open>cpython_fault_text\<close> gives the messages of CPython 3.11; the message of a \<open>KeyError\<close>
  is the \<open>repr\<close> of the key.  Where \<open>repr_json\<close> and \<open>show_json\<close> give no text, the
  instance leaves the text unspecified.
\<close>

fun type_name :: "json \<Rightarrow> string" where
  "type_name JNull = ''NoneType''"
| "type_name (JBool b) = ''bool''"
| "type_name (JInt i) = ''int''"
| "type_name (JFloat f) = ''float''"
| "type_name (JStr s) = ''str''"
| "type_name (JArr vs) = ''list''"
| "type_name (JObj kvs) = ''dict''"

fun cpython_fault_text :: "fault \<Rightarrow> pstr" where
  "cpython_fault_text (NotContainer v) =
     str ''argument of type '' @ [39] @ str (type_name v) @ [39] @ str '' is not iterable''"
| "cpython_fault_text (NoLen v) =
     str ''object of type '' @ [39] @ str (type_name v) @ [39] @ str '' has no len()''"
| "cpython_fault_text (NoAttribute v a) =
     [39] @ str (type_name v) @ [39] @ str '' object has no attribute '' @ [39] @ str a @ [39]"
| "cpython_fault_text (BadSubscript (JObj kvs) k) =
     (case repr_json k of Some text_of_key \<Rightarrow> text_of_key | None \<Rightarrow> undefined)"
| "cpython_fault_text (BadSubscript (JArr vs) (JInt i)) = str ''list index out of range''"
| "cpython_fault_text (BadSubscript (JArr vs) k) =
     str ''list indices must be integers or slices, not '' @ str (type_name k)"
| "cpython_fault_text (BadSubscript (JStr s) (JInt i)) = str ''string index out of range''"
| "cpython_fault_text (BadSubscript (JStr s) k) =
     str ''string indices must be integers, not '' @ [39] @ str (type_name k) @ [39]"
| "cpython_fault_text (BadSubscript v k) =
     [39] @ str (type_name v) @ [39] @ str '' object is not subscriptable''"

definition cpython :: interp where
  "cpython =
     \<lparr>str_json = (\<lambda>v. case show_json v of Some shown \<Rightarrow> shown | None \<Rightarrow> undefined),
      fault_text = cpython_fault_text\<rparr>"

text \<open>An endpoint that gives every request the same response, and one that always raises.\<close>

definition answering :: "response \<Rightarrow> endpoint" where
  "answering r req = Inr r"

definition failing :: "exn \<Rightarrow> endpoint" where
  "failing e req = Inl e"

text \<open>A response with the given status and decoded body, from the default URL.\<close>

definition reply :: "int \<Rightarrow> pstr \<Rightarrow> json \<Rightarrow> response" where
  "reply code phrase body =
     \<lparr>status_code = code, reason = phrase,
      url = str ''https://router.huggingface.co/v1/chat/completions'',
      json_result = Inr body\<rparr>"

text \<open>The body \<open>{"choices": [{"message": {"content": v}}]}\<close>.\<close>

definition completion_body :: "json \<Rightarrow> json" where
  "completion_body v =
     JObj [(str ''choices'', JArr [JObj [(str ''message'', JObj [(str ''content'', v)])]])]"

definition user_msg :: "pstr \<Rightarrow> message" where
  "user_msg c = \<lparr>role = str ''user'', content = c\<rparr>"

definition assistant_msg :: "pstr \<Rightarrow> message" where
  "assistant_msg c = \<lparr>role = str ''assistant'', content = c\<rparr>"

section \<open>Notions of the specification\<close>

text \<open>A line of the context that carries one of the two role tags.\<close>

definition tagged :: "pstr \<Rightarrow> bool" where
  "tagged line \<longleftrightarrow> startswith line (str ''User:'') \<or> startswith line (str ''Assistant:'')"

text \<open>The entry a tagged line stands for.\<close>

definition history_entry :: "pstr \<Rightarrow> message" where
  "history_entry line =
     (if startswith line (str ''User:'')
      then \<lparr>role = str ''user'', content = strip (replace line (str ''User:'') [])\<rparr>
      else \<lparr>role = str ''assistant'', content = strip (replace line (str ''Assistant:'') [])\<rparr>)"

text \<open>
  \<open>removes_all tok s r\<close>: \<open>r\<close> is \<open>s\<close> with every occurrence of \<open>tok\<close> cut out.  Either
  \<open>tok\<close> does not occur in \<open>s\<close>, or \<open>s\<close> is \<open>a @ tok @ b\<close> where this is the leftmost
  occurrence, and the same holds of \<open>b\<close>.
\<close>

inductive removes_all :: "pstr \<Rightarrow> pstr \<Rightarrow> pstr \<Rightarrow> bool" where
  none: "\<not> sublist tok s \<Longrightarrow> removes_all tok s s"
| cut: "\<not> sublist tok (a @ butlast tok) \<Longrightarrow> removes_all tok b r \<Longrightarrow>
        removes_all tok (a @ tok @ b) (a @ r)"

text \<open>The roles an entry of the conversation store may have.\<close>

definition store_role :: "message \<Rightarrow> bool" where
  "store_role m \<longleftrightarrow> role m = str ''user'' \<or> role m = str ''assistant''"

section \<open>Auxiliary lemmas\<close>

subsection \<open>Strings\<close>

lemma strip_decomp:
  "\<exists>a b. s = a @ strip s @ b \<and> (\<forall>c \<in> set a. is_space c) \<and> (\<forall>c \<in> set b. is_space c)"
proof -
  let ?a = "takeWhile is_space s"
  let ?m = "dropWhile is_space s"
  let ?b = "rev (takeWhile is_space (rev ?m))"
  have "rev ?m = takeWhile is_space (rev ?m) @ dropWhile is_space (rev ?m)" by simp
  then have "?m = strip s @ ?b"
    unfolding strip_def by (metis rev_append rev_rev_ident)
  then have "s = ?a @ strip s @ ?b"
    by (metis takeWhile_dropWhile_id)
  moreover have "\<forall>c \<in> set ?a. is_space c" by (auto dest: set_takeWhileD)
  moreover have "\<forall>c \<in> set ?b. is_space c" by (auto dest: set_takeWhileD)
  ultimately show ?thesis by blast
qed

lemma strip_ends:
  assumes "strip s \<noteq> []"
  shows "\<not> is_space (hd (strip s)) \<and> \<not> is_space (last (strip s))"
proof -
  define m where "m = dropWhile is_space s"
  define r where "r = dropWhile is_space (rev m)"
  have s: "strip s = rev r" by (simp add: strip_def r_def m_def)
  with assms have r: "r \<noteq> []" by simp
  then have hr: "\<not> is_space (hd r)" unfolding r_def by (rule hd_dropWhile)
  have m: "m \<noteq> []"
  proof
    assume "m = []"
    then have "r = []" by (simp add: r_def)
    with r show False by contradiction
  qed
  then have hm: "\<not> is_space (hd m)" unfolding m_def by (rule hd_dropWhile)
  have "hd m \<in> set (rev m)" using m by simp
  then have "last r = last (rev m)" unfolding r_def using hm by (rule dropWhile_last)
  also have "\<dots> = hd m" using m by (simp add: last_rev)
  finally have "hd (rev r) = hd m" using r by (simp add: hd_rev)
  moreover have "last (rev r) = hd r" using r by (simp add: last_rev)
  ultimately show ?thesis using hr hm by (simp add: s)
qed

lemma replace_Nil: "old \<noteq> [] \<Longrightarrow> replace [] old new = []"
  by (simp add: replace.simps)

lemma replace_prefix:
  "old \<noteq> [] \<Longrightarrow> replace (old @ b) old new = new @ replace b old new"
  by (subst replace.simps) (simp add: startswith_def)

lemma replace_hit:
  "old \<noteq> [] \<Longrightarrow> prefix old s \<Longrightarrow>
   replace s old new = new @ replace (drop (length old) s) old new"
  by (subst replace.simps) (auto simp add: startswith_def)

lemma split_not_Nil: "split sep s \<noteq> []"
  by (induction s) (auto split: list.splits)

text \<open>Joining lines that contain no separator and splitting again gives the lines back.\<close>

lemma split_append_sep: "sep \<notin> set x \<Longrightarrow> split sep (x @ sep # r) = x # split sep r"
  by (induction x) (auto split: list.splits)

lemma split_no_sep: "sep \<notin> set x \<Longrightarrow> split sep x = [x]"
  by (induction x) auto

lemma split_join:
  "ls \<noteq> [] \<Longrightarrow> \<forall>l \<in> set ls. sep \<notin> set l \<Longrightarrow> split sep (join [sep] ls) = ls"
proof (induction ls)
  case Nil
  then show ?case by simp
next
  case (Cons x xs)
  show ?case
  proof (cases xs)
    case Nil
    with Cons.prems show ?thesis by (simp add: split_no_sep)
  next
    case (Cons y ys)
    with Cons.IH Cons.prems have "split sep (join [sep] (y # ys)) = y # ys" by simp
    with Cons Cons.prems show ?thesis by (simp add: split_append_sep)
  qed
qed

lemma replace_Cons:
  "old \<noteq> [] \<Longrightarrow> \<not> prefix old (x # s) \<Longrightarrow> replace (x # s) old new = x # replace s old new"
  by (subst replace.simps) (simp add: startswith_def)

lemma not_sublist_butlast: "tok \<noteq> [] \<Longrightarrow> \<not> sublist tok (butlast tok)"
proof
  assume ne: "tok \<noteq> []" and sub: "sublist tok (butlast tok)"
  have "length tok \<le> length (butlast tok)" using sub by (rule sublist_length_le)
  also have "length (butlast tok) = length tok - 1" by (rule length_butlast)
  finally have "length tok = 0" by arith
  with ne show False by simp
qed

lemma removes_all_Cons:
  assumes "removes_all tok s r" and "\<not> prefix tok (x # s)"
  shows "removes_all tok (x # s) (x # r)"
  using assms
proof (cases rule: removes_all.cases)
  case none
  with assms(2) have "\<not> sublist tok (x # s)"
    by (simp add: sublist_Cons_right)
  with none show ?thesis by (simp add: removes_all.none)
next
  case (cut a b r')
  have "\<not> prefix tok (x # a @ butlast tok)"
  proof
    assume "prefix tok (x # a @ butlast tok)"
    moreover have "prefix (x # a @ butlast tok) (x # s)"
    proof (cases "tok = []")
      case True
      then show ?thesis using cut by simp
    next
      case False
      then have "tok = butlast tok @ [last tok]" by simp
      then have "x # s = (x # a @ butlast tok) @ (last tok # b)"
        using cut(1) by (metis append.assoc append_Cons append_Nil)
      then show ?thesis by (metis prefixI)
    qed
    ultimately show False using assms(2) by (meson prefix_order.trans)
  qed
  with cut(3) have "\<not> sublist tok ((x # a) @ butlast tok)"
    by (simp add: sublist_Cons_right)
  then have "removes_all tok ((x # a) @ tok @ b) ((x # a) @ r')"
    using cut(4) by (rule removes_all.cut)
  then show ?thesis using cut by simp
qed

text \<open>\<open>replace\<close> with an empty replacement cuts out every occurrence.\<close>

lemma replace_removes_all:
  "tok \<noteq> [] \<Longrightarrow> removes_all tok s (replace s tok [])"
proof (induction s tok "[] :: pstr" rule: replace.induct)
  case (1 s old)
  show ?case
  proof (cases "s = []")
    case True
    with 1 show ?thesis by (simp add: replace_Nil removes_all.none)
  next
    case ne: False
    show ?thesis
    proof (cases "startswith s old")
      case True
      then obtain b where s: "s = old @ b" by (auto simp: startswith_def prefix_def)
      have "removes_all old b (replace b old [])"
        using 1(1)[OF "1.prems" ne True] "1.prems" s by simp
      from removes_all.cut[of old "[]", OF _ this] "1.prems"
      show ?thesis by (simp add: s replace_prefix not_sublist_butlast)
    next
      case False
      obtain x t where s: "s = x # t" using ne by (cases s) auto
      have "removes_all old t (replace t old [])"
        using 1(2)[OF "1.prems" ne False] "1.prems" s by simp
      from removes_all_Cons[OF this] False s "1.prems"
      show ?thesis by (simp add: replace_Cons startswith_def)
    qed
  qed
qed

subsection \<open>Request construction\<close>

lemma add_history_eq:
  "add_history ls msgs = msgs @ map history_entry (filter tagged ls)"
  by (induction ls arbitrary: msgs) (simp_all add: tagged_def history_entry_def)

lemma not_tagged_Nil: "\<not> tagged []"
  by (simp add: tagged_def startswith_def str_def)

lemma build_messages_eq:
  "build_messages prompt ctx =
     \<lparr>role = str ''system'', content = SYSTEM_PROMPT\<rparr>
     # map history_entry (filter tagged (split 10 ctx))
     @ [\<lparr>role = str ''user'', content = prompt\<rparr>]"
  by (simp add: build_messages_def Let_def add_history_eq not_tagged_Nil)

subsection \<open>The client\<close>

lemma key_set_iff: "key_set cfg \<longleftrightarrow> HF_API_KEY cfg \<noteq> None \<and> HF_API_KEY cfg \<noteq> Some []"
  by (auto simp: key_set_def split: option.splits)

lemma key_set_default: "key_set (default_config (Some (str ''hf_token'')))"
  by (simp add: key_set_def default_config_def str_def)

lemma query_posted:
  "key_set cfg \<Longrightarrow>
   snd (query_huggingface cfg rt post prompt ctx) = [build_request cfg prompt ctx]"
  by (simp add: query_huggingface_def Let_def)

lemma query_returns: "\<exists>answer. fst (query_huggingface cfg rt post prompt ctx) = Inr answer"
  by (simp add: query_huggingface_def Let_def split: sum.splits)

lemma query_response:
  "key_set cfg \<Longrightarrow> post (build_request cfg prompt ctx) = Inr r \<Longrightarrow>
   fst (query_huggingface cfg rt post prompt ctx) =
     Inr (case handle_response rt r of Inr answer \<Rightarrow> answer | Inl e \<Rightarrow> handlers cfg e)"
  by (simp add: query_huggingface_def Let_def try_block_def split: sum.splits)

lemma query_raised:
  "key_set cfg \<Longrightarrow> post (build_request cfg prompt ctx) = Inl e \<Longrightarrow>
   fst (query_huggingface cfg rt post prompt ctx) = Inr (handlers cfg e)"
  by (simp add: query_huggingface_def Let_def try_block_def)

lemma handle_success:
  "200 \<le> status_code r \<Longrightarrow> status_code r < 300 \<Longrightarrow> json_result r = Inr body \<Longrightarrow>
   handle_response rt r = extract_reply rt body"
  by (simp add: handle_response_def raise_for_status_def)

text \<open>A body that is no container makes the membership test raise.\<close>

lemma extract_reply_number:
  "extract_reply rt (JInt n) = Inl (TypeError (fault_text rt (NotContainer (JInt n))))"
  by (simp add: extract_reply_def)

lemma extract_reply_null:
  "extract_reply rt JNull = Inl (TypeError (fault_text rt (NotContainer JNull)))"
  by (simp add: extract_reply_def)

text \<open>An array or a string in which the test finds no \<open>choices\<close> is reported like an object
  without the key; so is an empty \<open>choices\<close>.\<close>

lemma extract_reply_not_in:
  "py_in rt (str ''choices'') body = Inr False \<Longrightarrow>
   extract_reply rt body = Inr (unexpected_format_text (str_json rt body))"
  by (simp add: extract_reply_def)

lemma extract_reply_no_choice:
  "map_of kvs (str ''choices'') = Some (JArr []) \<Longrightarrow>
   extract_reply rt (JObj kvs) = Inr (unexpected_format_text (str_json rt (JObj kvs)))"
  by (simp add: extract_reply_def)

lemma extract_reply_falsy:
  assumes "map_of kvs (str ''choices'') = Some (JArr (JObj ckvs # rest))"
    and "map_of ckvs (str ''message'') = Some (JObj mkvs)"
    and "map_of mkvs (str ''content'') = Some v"
    and "\<not> truthy v"
  shows "extract_reply rt (JObj kvs) = Inr fallback_text"
  using assms by (simp add: extract_reply_def)

subsection \<open>The send handler\<close>

lemma context_messages_eq: "context_messages msgs = drop (length msgs - 6) msgs"
proof -
  have "nat (int (length msgs) - 6) = length msgs - 6" by arith
  then show ?thesis by (simp add: context_messages_def slice_from_def)
qed

lemma slice_upto_butlast: "slice_upto (- 1) xs = butlast xs"
  by (cases "xs = []") (simp_all add: slice_upto_def butlast_conv_take nat_diff_distrib')

lemma window_snoc:
  "context_messages (store @ [cur]) = drop (length store - 5) store @ [cur]"
  by (simp add: context_messages_eq Suc_diff_le)

lemma process_input_posted:
  "snd (snd (process_input cfg rt post send_button prompt st)) =
     (if prompt \<noteq> [] \<and> key_set cfg
      then [build_request cfg prompt (build_context (ss_messages st @ [user_msg prompt]))]
      else [])"
proof -
  obtain answer where "fst (query_huggingface cfg rt post prompt
      (build_context (ss_messages st @ [user_msg prompt]))) = Inr answer"
    using query_returns by blast
  then show ?thesis
    by (auto simp add: process_input_def Let_def query_posted user_msg_def)
qed

lemma process_input_roles:
  assumes "\<forall>m \<in> set (ss_messages st). store_role m"
  shows "\<forall>m \<in> set (ss_messages (fst (snd (process_input cfg rt post send_button prompt st)))).
           store_role m"
  using assms
  by (auto simp: process_input_def Let_def store_role_def split: sum.splits)

lemma run_roles:
  "\<forall>m \<in> set (ss_messages st). store_role m \<Longrightarrow>
   \<forall>m \<in> set (ss_messages (run cfg rt st evs)). store_role m"
proof (induction evs arbitrary: st)
  case Nil
  then show ?case by simp
next
  case (Cons ev evs)
  show ?case
  proof (cases ev)
    case (Ask send_button prompt post)
    from Cons.prems
    have "\<forall>m \<in> set (ss_messages (fst (snd (process_input cfg rt post send_button prompt st)))).
            store_role m"
      by (rule process_input_roles)
    then show ?thesis using Ask by (simp add: Cons.IH)
  next
    case Clear
    have "\<forall>m \<in> set (ss_messages (clear_conversation st)). store_role m"
      by (simp add: clear_conversation_def)
    then show ?thesis using Clear by (simp add: Cons.IH)
  qed
qed

lemma process_input_store:
  assumes "prompt \<noteq> []" and "key_set cfg"
  shows "\<exists>answer.
           fst (query_huggingface cfg rt post prompt
                  (build_context (ss_messages st @ [user_msg prompt]))) = Inr answer \<and>
           ss_messages (fst (snd (process_input cfg rt post send_button prompt st))) =
             ss_messages st @ [user_msg prompt, assistant_msg answer]"
proof -
  obtain answer where "fst (query_huggingface cfg rt post prompt
      (build_context (ss_messages st @ [user_msg prompt]))) = Inr answer"
    using query_returns by blast
  then show ?thesis using assms
    by (simp add: process_input_def Let_def user_msg_def assistant_msg_def)
qed

lemma process_input_no_exception:
  "fst (process_input cfg rt post send_button prompt st) = None"
proof -
  obtain answer where "fst (query_huggingface cfg rt post prompt
      (build_context (ss_messages st @ [user_msg prompt]))) = Inr answer"
    using query_returns by blast
  then show ?thesis
    by (simp add: process_input_def Let_def user_msg_def)
qed

subsection \<open>Empty replies\<close>

text \<open>Every fixed or templated message is non-empty.\<close>

lemma handlers_nonempty: "handlers cfg e \<noteq> []"
  by (cases e)
     (simp_all add: auth_failed_text_def model_not_found_text_def connection_error_text_def
        unexpected_error_text_def)

lemma strip_blank: "\<forall>c \<in> set t. is_space c \<Longrightarrow> strip t = []"
proof -
  assume "\<forall>c \<in> set t. is_space c"
  then have d: "dropWhile is_space t = []" by simp
  show ?thesis unfolding strip_def d by simp
qed

lemma extract_reply_content:
  assumes "map_of kvs (str ''choices'') = Some (JArr (JObj ckvs # rest))"
    and "map_of ckvs (str ''message'') = Some (JObj mkvs)"
    and "map_of mkvs (str ''content'') = Some (JStr t)"
    and "t \<noteq> []"
  shows "extract_reply rt (JObj kvs) = Inr (strip t)"
  using assms by (simp add: extract_reply_def)

text \<open>
  The body can only give the empty string through the branch that strips a non-empty
  string \<open>content\<close> of the first choice.
\<close>

lemma extract_reply_empty:
  assumes "extract_reply rt body = Inr []"
  shows "\<exists>choices choice msg t.
           getitem_str rt body (str ''choices'') = Inr choices \<and>
           getitem_0 rt choices = Inr choice \<and>
           py_get rt choice (str ''message'') (JObj []) = Inr msg \<and>
           py_get rt msg (str ''content'') (JStr []) = Inr (JStr t) \<and>
           t \<noteq> [] \<and> strip t = []"
proof -
  have fmt: "unexpected_format_text b \<noteq> []" for b
    by (simp add: unexpected_format_text_def)
  have fb: "fallback_text \<noteq> []"
    by (simp add: fallback_text_def str_def)
  have st: "py_strip rt v = Inr [] \<Longrightarrow> truthy v \<Longrightarrow> \<exists>t. v = JStr t \<and> t \<noteq> [] \<and> strip t = []" for v
    by (cases v) auto
  from assms fmt fb show ?thesis
    by (auto simp add: extract_reply_def split: sum.splits bool.splits if_splits dest!: st)
qed

lemma handle_response_empty:
  assumes "handle_response rt r = Inr []"
  shows "\<exists>body. json_result r = Inr body \<and> extract_reply rt body = Inr []"
  using assms
  by (auto simp add: handle_response_def model_loading_text_def invalid_key_text_def
        rate_limit_text_def split: if_splits sum.splits)

text \<open>
  The client returns the empty string only for a response whose first choice has a
  non-empty string \<open>content\<close> that consists of whitespace.
\<close>

lemma query_reply_empty:
  assumes "fst (query_huggingface cfg rt post prompt ctx) = Inr []"
  shows "\<exists>r body choices choice msg t.
           post (build_request cfg prompt ctx) = Inr r \<and>
           json_result r = Inr body \<and>
           getitem_str rt body (str ''choices'') = Inr choices \<and>
           getitem_0 rt choices = Inr choice \<and>
           py_get rt choice (str ''message'') (JObj []) = Inr msg \<and>
           py_get rt msg (str ''content'') (JStr []) = Inr (JStr t) \<and>
           t \<noteq> [] \<and> strip t = []"
proof -
  have k: "key_set cfg"
    using assms by (auto simp add: query_huggingface_def config_error_text_def split: if_splits)
  with assms have "try_block rt post (build_request cfg prompt ctx) = Inr []"
    by (auto simp add: query_huggingface_def Let_def handlers_nonempty split: sum.splits)
  then obtain r where r: "post (build_request cfg prompt ctx) = Inr r"
    and h: "handle_response rt r = Inr []"
    by (auto simp add: try_block_def split: sum.splits)
  from handle_response_empty [OF h] obtain body
    where b: "json_result r = Inr body" and e: "extract_reply rt body = Inr []"
    by blast
  from extract_reply_empty [OF e] r b show ?thesis by blast
qed

section \<open>The claims\<close>

text \<open>
  C1.  After the current prompt has been appended, the context window is the last 6
  entries of the store, or the whole store when it holds 6 or fewer, in store order.  Its
  last entry is the message being answered, and the context string serializes the window
  without that entry: the up to 5 entries before it, one line each, in order.  This
  string is the context of the request the handler posts.
\<close>

theorem context_window_last_six:
  "context_messages (store @ [cur]) =
     (if length (store @ [cur]) \<le> 6 then store @ [cur]
      else drop (length (store @ [cur]) - 6) (store @ [cur]))
   \<and> length (context_messages (store @ [cur])) = min 6 (length (store @ [cur]))
   \<and> context_messages (store @ [cur]) = drop (length store - 5) store @ [cur]
   \<and> build_context (store @ [cur]) =
       join [10] (map format_line (drop (length store - 5) store))
   \<and> snd (snd (process_input cfg rt post send_button prompt st)) =
       (if prompt \<noteq> [] \<and> key_set cfg
        then [build_request cfg prompt (build_context (ss_messages st @ [user_msg prompt]))]
        else [])"
proof -
  have "context_messages (store @ [cur]) =
     (if length (store @ [cur]) \<le> 6 then store @ [cur]
      else drop (length (store @ [cur]) - 6) (store @ [cur]))"
    by (simp add: context_messages_eq)
  moreover have "length (context_messages (store @ [cur])) = min 6 (length (store @ [cur]))"
    by (simp add: context_messages_eq)
  moreover have "build_context (store @ [cur]) =
      join [10] (map format_line (drop (length store - 5) store))"
    by (simp add: build_context_def window_snoc slice_upto_butlast butlast_append)
  ultimately show ?thesis
    using window_snoc process_input_posted by blast
qed

theorem context_window_last_six_witness:
  "context_messages
     ([user_msg (str ''q1''), assistant_msg (str ''a1''), user_msg (str ''q2''),
       assistant_msg (str ''a2''), user_msg (str ''q3''), assistant_msg (str ''a3'')]
      @ [user_msg (str ''q4'')])
   = [assistant_msg (str ''a1''), user_msg (str ''q2''), assistant_msg (str ''a2''),
      user_msg (str ''q3''), assistant_msg (str ''a3''), user_msg (str ''q4'')]
   \<and> build_context
     ([user_msg (str ''q1''), assistant_msg (str ''a1''), user_msg (str ''q2''),
       assistant_msg (str ''a2''), user_msg (str ''q3''), assistant_msg (str ''a3'')]
      @ [user_msg (str ''q4'')])
   = str ''Assistant: a1'' @ [10] @ str ''User: q2'' @ [10] @ str ''Assistant: a2'' @ [10]
     @ str ''User: q3'' @ [10] @ str ''Assistant: a3''"
proof -
  have "format_line (assistant_msg c) = str ''Assistant: '' @ c"
    and "format_line (user_msg c) = str ''User: '' @ c" for c
    by (simp_all add: format_line_def assistant_msg_def user_msg_def capitalize_def
        upper_def lower_def str_def)
  then show ?thesis
    using context_window_last_six
      [where store = "[user_msg (str ''q1''), assistant_msg (str ''a1''), user_msg (str ''q2''),
         assistant_msg (str ''a2''), user_msg (str ''q3''), assistant_msg (str ''a3'')]"
       and cur = "user_msg (str ''q4'')"]
    by (simp add: str_def)
qed

text \<open>
  C2.  Without a credential (\<open>HF_API_KEY\<close> unset or empty) the client returns the
  configuration-error text and posts nothing, whatever the prompt, the context and the
  endpoint.
\<close>

theorem no_credential_no_request:
  "HF_API_KEY cfg = None \<or> HF_API_KEY cfg = Some [] \<Longrightarrow>
   query_huggingface cfg rt post prompt ctx = (Inr config_error_text, [])"
  by (auto simp: query_huggingface_def key_set_def)

theorem no_credential_no_request_witness:
  "HF_API_KEY (default_config None) = None \<and>
   query_huggingface (default_config None) cpython
     (answering (reply 200 (str ''OK'') (completion_body (JStr (str ''Hello'')))))
     (str ''What is a P/E ratio?'') []
   = (Inr config_error_text, [])"
proof -
  have k: "HF_API_KEY (default_config None) = None"
    by (simp add: default_config_def)
  then have "HF_API_KEY (default_config None) = None \<or> HF_API_KEY (default_config None) = Some []"
    by simp
  from no_credential_no_request [OF this] k show ?thesis by simp
qed

text \<open>
  C3.  With a credential, a response with status 503, 401 or 429 makes the client return
  the fixed text of that status, and the request is posted once.
\<close>

theorem status_classification:
  assumes "key_set cfg" and "post (build_request cfg prompt ctx) = Inr r"
  shows "(status_code r = 503 \<longrightarrow>
            query_huggingface cfg rt post prompt ctx =
              (Inr model_loading_text, [build_request cfg prompt ctx])) \<and>
         (status_code r = 401 \<longrightarrow>
            query_huggingface cfg rt post prompt ctx =
              (Inr invalid_key_text, [build_request cfg prompt ctx])) \<and>
         (status_code r = 429 \<longrightarrow>
            query_huggingface cfg rt post prompt ctx =
              (Inr rate_limit_text, [build_request cfg prompt ctx]))"
proof -
  have "fst (query_huggingface cfg rt post prompt ctx) =
      Inr (case handle_response rt r of Inr answer \<Rightarrow> answer | Inl e \<Rightarrow> handlers cfg e)"
    using assms by (rule query_response)
  moreover have "snd (query_huggingface cfg rt post prompt ctx) = [build_request cfg prompt ctx]"
    using assms(1) by (rule query_posted)
  ultimately show ?thesis
    by (simp add: handle_response_def prod_eq_iff)
qed

theorem status_classification_witness:
  "fst (query_huggingface (default_config (Some (str ''hf_token''))) cpython
         (answering (reply 503 (str ''Service Unavailable'') JNull)) (str ''hi'') [])
     = Inr (9203 # str '' Model is currently loading. Please try again in a moment.'')
   \<and> fst (query_huggingface (default_config (Some (str ''hf_token''))) cpython
         (answering (reply 401 (str ''Unauthorized'') JNull)) (str ''hi'') [])
     = Inr (10060 # str '' Invalid API key. Please check your HF_API_KEY in the .env file.'')
   \<and> fst (query_huggingface (default_config (Some (str ''hf_token''))) cpython
         (answering (reply 429 (str ''Too Many Requests'') JNull)) (str ''hi'') [])
     = Inr ([9888, 65039] @ str '' Rate limit reached. Please wait a moment and try again.'')"
  using
    status_classification [OF key_set_default, where post = "answering (reply 503 (str ''Service Unavailable'') JNull)"
      and r = "reply 503 (str ''Service Unavailable'') JNull" and rt = cpython
      and prompt = "str ''hi''" and ctx = "[]"]
    status_classification [OF key_set_default, where post = "answering (reply 401 (str ''Unauthorized'') JNull)"
      and r = "reply 401 (str ''Unauthorized'') JNull" and rt = cpython
      and prompt = "str ''hi''" and ctx = "[]"]
    status_classification [OF key_set_default, where post = "answering (reply 429 (str ''Too Many Requests'') JNull)"
      and r = "reply 429 (str ''Too Many Requests'') JNull" and rt = cpython
      and prompt = "str ''hi''" and ctx = "[]"]
  by (simp add: answering_def reply_def model_loading_text_def invalid_key_text_def
      rate_limit_text_def)

text \<open>
  C4, as stated, fails: status 404 is raised and caught like every other status from 400
  to 599, but its message contains \<open>404\<close>, and the handler answers with the
  model-not-found text instead of the connection-error text.
\<close>

theorem not_found_status_counterexample:
  "fst (query_huggingface (default_config (Some (str ''hf_token''))) cpython
          (answering (reply 404 (str ''Not Found'') JNull)) (str ''What is a P/E ratio?'') [])
     = Inr (model_not_found_text (str ''google/gemma-2-2b-it''))
   \<and> model_not_found_text (str ''google/gemma-2-2b-it'')
     \<noteq> connection_error_text
          (str ''404 Client Error: Not Found for url: https://router.huggingface.co/v1/chat/completions'')"
proof -
  let ?r = "reply 404 (str ''Not Found'') JNull"
  let ?cfg = "default_config (Some (str ''hf_token''))"
  let ?msg = "str ''404 Client Error: Not Found for url: https://router.huggingface.co/v1/chat/completions''"
  have "answering ?r (build_request ?cfg (str ''What is a P/E ratio?'') []) = Inr ?r"
    by (simp add: answering_def)
  with key_set_default
  have q: "fst (query_huggingface ?cfg cpython (answering ?r) (str ''What is a P/E ratio?'') []) =
      Inr (case handle_response cpython ?r of Inr answer \<Rightarrow> answer | Inl e \<Rightarrow> handlers ?cfg e)"
    by (rule query_response)
  have m: "str_int 404 @ str '' Client Error: '' @ str ''Not Found'' @ str '' for url: ''
      @ str ''https://router.huggingface.co/v1/chat/completions'' = ?msg"
    by (simp add: str_int_def str_nat.simps str_def)
  have h: "handle_response cpython ?r = Inl (RequestException ?msg)"
    by (simp add: handle_response_def raise_for_status_def reply_def m)
  have "\<not> str_in (str ''401'') ?msg" and "str_in (str ''404'') ?msg"
    by (simp_all add: str_in_def str_def sublist_Cons_right)
  then have "handlers ?cfg (RequestException ?msg) = model_not_found_text (str ''google/gemma-2-2b-it'')"
    by (simp add: default_config_def)
  with q h
  have "fst (query_huggingface ?cfg cpython (answering ?r) (str ''What is a P/E ratio?'') [])
      = Inr (model_not_found_text (str ''google/gemma-2-2b-it''))"
    by simp
  moreover have "model_not_found_text (str ''google/gemma-2-2b-it'') \<noteq> connection_error_text ?msg"
    by (simp add: model_not_found_text_def connection_error_text_def)
  ultimately show ?thesis by simp
qed

text \<open>
  C4, amended.  With a credential, a response with a status from 400 to 599 other than
  401, 429 and 503 is raised by \<open>raise_for_status\<close> as a generic error, whose message is
  the status, \<open>Client Error\<close> or \<open>Server Error\<close>, the reason phrase and the URL, and the
  first handler catches it.  Provided the message does not contain \<open>401\<close>: status 404 is
  surfaced as the model-not-found text, and a message that does not contain \<open>404\<close>
  either is surfaced as the connection-error text, which includes the message.
\<close>

theorem http_error_classification:
  assumes "key_set cfg" and "post (build_request cfg prompt ctx) = Inr r"
    and "400 \<le> status_code r" and "status_code r < 600"
    and "status_code r \<noteq> 401" and "status_code r \<noteq> 429" and "status_code r \<noteq> 503"
    and "error_msg =
           str_int (status_code r)
           @ (if status_code r < 500 then str '' Client Error: '' else str '' Server Error: '')
           @ reason r @ str '' for url: '' @ url r"
    and "\<not> str_in (str ''401'') error_msg"
  shows "raise_for_status r = Inl (RequestException error_msg)
    \<and> (status_code r = 404 \<longrightarrow>
         fst (query_huggingface cfg rt post prompt ctx) =
           Inr (model_not_found_text (MODEL_NAME cfg)))
    \<and> (\<not> str_in (str ''404'') error_msg \<longrightarrow>
         fst (query_huggingface cfg rt post prompt ctx) =
           Inr (connection_error_text error_msg))"
proof -
  have raised: "raise_for_status r = Inl (RequestException error_msg)"
    using assms(3,4,8) by (simp add: raise_for_status_def)
  then have "handle_response rt r = Inl (RequestException error_msg)"
    using assms(5-7) by (simp add: handle_response_def)
  moreover have "fst (query_huggingface cfg rt post prompt ctx) =
      Inr (case handle_response rt r of Inr answer \<Rightarrow> answer | Inl e \<Rightarrow> handlers cfg e)"
    using assms(1,2) by (rule query_response)
  ultimately have res: "fst (query_huggingface cfg rt post prompt ctx) =
      Inr (if str_in (str ''404'') error_msg then model_not_found_text (MODEL_NAME cfg)
           else connection_error_text error_msg)"
    using assms(9) by simp
  have "str_in (str ''404'') error_msg" if "status_code r = 404"
  proof -
    have "str_int 404 = str ''404''"
      by (simp add: str_int_def str_nat.simps str_def)
    with that assms(8) have "error_msg = str ''404'' @ str '' Client Error: '' @ reason r
        @ str '' for url: '' @ url r"
      by simp
    then show ?thesis unfolding str_in_def by (metis sublist_append_rightI)
  qed
  with raised res show ?thesis by simp
qed

theorem http_error_classification_witness:
  "fst (query_huggingface (default_config (Some (str ''hf_token''))) cpython
          (answering (reply 500 (str ''Internal Server Error'') JNull)) (str ''hi'') [])
   = Inr (connection_error_text
       (str ''500 Server Error: Internal Server Error for url: https://router.huggingface.co/v1/chat/completions''))
   \<and> fst (query_huggingface (default_config (Some (str ''hf_token''))) cpython
          (answering (reply 404 (str ''Not Found'') JNull)) (str ''hi'') [])
   = Inr (model_not_found_text (str ''google/gemma-2-2b-it''))"
proof -
  let ?cfg = "default_config (Some (str ''hf_token''))"
  let ?r = "reply 500 (str ''Internal Server Error'') JNull"
  let ?msg = "str ''500 Server Error: Internal Server Error for url: https://router.huggingface.co/v1/chat/completions''"
  let ?r' = "reply 404 (str ''Not Found'') JNull"
  let ?msg' = "str ''404 Client Error: Not Found for url: https://router.huggingface.co/v1/chat/completions''"
  have p: "answering ?r (build_request ?cfg (str ''hi'') []) = Inr ?r"
    and p': "answering ?r' (build_request ?cfg (str ''hi'') []) = Inr ?r'"
    by (simp_all add: answering_def)
  have s: "400 \<le> status_code ?r" "status_code ?r < 600" "status_code ?r \<noteq> 401"
    "status_code ?r \<noteq> 429" "status_code ?r \<noteq> 503"
    and s': "400 \<le> status_code ?r'" "status_code ?r' < 600" "status_code ?r' \<noteq> 401"
    "status_code ?r' \<noteq> 429" "status_code ?r' \<noteq> 503" "status_code ?r' = 404"
    by (simp_all add: reply_def)
  have m: "?msg = str_int (status_code ?r)
           @ (if status_code ?r < 500 then str '' Client Error: '' else str '' Server Error: '')
           @ reason ?r @ str '' for url: '' @ url ?r"
    and m': "?msg' = str_int (status_code ?r')
           @ (if status_code ?r' < 500 then str '' Client Error: '' else str '' Server Error: '')
           @ reason ?r' @ str '' for url: '' @ url ?r'"
    by (simp_all add: reply_def str_int_def str_nat.simps str_def)
  have n: "\<not> str_in (str ''401'') ?msg" "\<not> str_in (str ''404'') ?msg"
    and n': "\<not> str_in (str ''401'') ?msg'"
    by (simp_all add: str_in_def str_def sublist_Cons_right)
  from http_error_classification
         [where post = "answering ?r" and r = ?r and rt = cpython and error_msg = ?msg,
          OF key_set_default p s m n(1)] n(2)
  have "fst (query_huggingface ?cfg cpython (answering ?r) (str ''hi'') [])
      = Inr (connection_error_text ?msg)"
    by blast
  moreover
  from http_error_classification
         [where post = "answering ?r'" and r = ?r' and rt = cpython and error_msg = ?msg',
          OF key_set_default p' s'(1-5) m' n'] s'(6)
  have "fst (query_huggingface ?cfg cpython (answering ?r') (str ''hi'') [])
      = Inr (model_not_found_text (MODEL_NAME ?cfg))"
    by blast
  moreover have "MODEL_NAME ?cfg = str ''google/gemma-2-2b-it''"
    by (simp add: default_config_def)
  ultimately show ?thesis by simp
qed

text \<open>
  C5.  With a credential, a successful response whose body is an object with a non-empty
  \<open>choices\<close> array, whose first choice has a \<open>message\<close> object with a non-empty string
  \<open>content\<close>, makes the client return that string stripped of the whitespace around it:
  the content is the returned string between two runs of whitespace, and the returned
  string, unless empty, neither starts nor ends with whitespace.
\<close>

theorem completion_trimmed:
  assumes "key_set cfg" and "post (build_request cfg prompt ctx) = Inr r"
    and "200 \<le> status_code r" and "status_code r < 300"
    and "json_result r = Inr (JObj kvs)"
    and "map_of kvs (str ''choices'') = Some (JArr (JObj ckvs # rest))"
    and "map_of ckvs (str ''message'') = Some (JObj mkvs)"
    and "map_of mkvs (str ''content'') = Some (JStr t)"
    and "t \<noteq> []"
  shows "fst (query_huggingface cfg rt post prompt ctx) = Inr (strip t)
    \<and> (\<exists>a b. t = a @ strip t @ b \<and> (\<forall>c \<in> set a. is_space c) \<and> (\<forall>c \<in> set b. is_space c))
    \<and> (strip t \<noteq> [] \<longrightarrow> \<not> is_space (hd (strip t)) \<and> \<not> is_space (last (strip t)))"
proof -
  have "fst (query_huggingface cfg rt post prompt ctx) =
      Inr (case handle_response rt r of Inr answer \<Rightarrow> answer | Inl e \<Rightarrow> handlers cfg e)"
    using assms(1,2) by (rule query_response)
  moreover have "handle_response rt r = extract_reply rt (JObj kvs)"
    using assms(3-5) by (rule handle_success)
  moreover have "extract_reply rt (JObj kvs) = Inr (strip t)"
    using assms(6-9) by (simp add: extract_reply_def)
  ultimately have "fst (query_huggingface cfg rt post prompt ctx) = Inr (strip t)"
    by simp
  then show ?thesis
    using strip_decomp [of t] strip_ends [of t] by blast
qed

theorem completion_trimmed_witness:
  "fst (query_huggingface (default_config (Some (str ''hf_token''))) cpython
          (answering (reply 200 (str ''OK'') (completion_body (JStr (str ''  Hello  '')))))
          (str ''hi'') [])
   = Inr (str ''Hello'')"
proof -
  let ?r = "reply 200 (str ''OK'') (completion_body (JStr (str ''  Hello  '')))"
  let ?cfg = "default_config (Some (str ''hf_token''))"
  have p: "answering ?r (build_request ?cfg (str ''hi'') []) = Inr ?r"
    by (simp add: answering_def)
  have s: "200 \<le> status_code ?r" "status_code ?r < 300"
    by (simp_all add: reply_def)
  have j: "json_result ?r =
      Inr (JObj [(str ''choices'',
        JArr [JObj [(str ''message'', JObj [(str ''content'', JStr (str ''  Hello  ''))])]])])"
    by (simp add: reply_def completion_body_def)
  have ne: "str ''  Hello  '' \<noteq> []" by (simp add: str_def)
  have e: "strip (str ''  Hello  '') = str ''Hello''"
    by (simp add: strip_def str_def is_space_def)
  from completion_trimmed
         [where post = "answering ?r" and r = ?r and rt = cpython, OF key_set_default p s j _ _ _ ne]
  have "fst (query_huggingface ?cfg cpython (answering ?r) (str ''hi'') [])
      = Inr (strip (str ''  Hello  ''))"
    by simp
  then show ?thesis by (simp only: e)
qed

text \<open>
  C6.  With a credential, a successful response in which the first choice has no
  \<open>message\<close>, or a \<open>message\<close> object whose \<open>content\<close> is missing or the empty string,
  makes the client return the fallback text.
\<close>

theorem empty_completion_fallback:
  assumes "key_set cfg" and "post (build_request cfg prompt ctx) = Inr r"
    and "200 \<le> status_code r" and "status_code r < 300"
    and "json_result r = Inr (JObj kvs)"
    and "map_of kvs (str ''choices'') = Some (JArr (JObj ckvs # rest))"
    and "map_of ckvs (str ''message'') = None \<or>
         (\<exists>mkvs. map_of ckvs (str ''message'') = Some (JObj mkvs) \<and>
            (map_of mkvs (str ''content'') = None \<or>
             map_of mkvs (str ''content'') = Some (JStr [])))"
  shows "fst (query_huggingface cfg rt post prompt ctx) = Inr fallback_text"
proof -
  have "fst (query_huggingface cfg rt post prompt ctx) =
      Inr (case handle_response rt r of Inr answer \<Rightarrow> answer | Inl e \<Rightarrow> handlers cfg e)"
    using assms(1,2) by (rule query_response)
  moreover have "handle_response rt r = extract_reply rt (JObj kvs)"
    using assms(3-5) by (rule handle_success)
  moreover have "extract_reply rt (JObj kvs) = Inr fallback_text"
    using assms(6,7) by (auto simp add: extract_reply_def)
  ultimately show ?thesis by simp
qed

theorem empty_completion_fallback_witness:
  "fst (query_huggingface (default_config (Some (str ''hf_token''))) cpython
          (answering (reply 200 (str ''OK'') (completion_body (JStr []))))
          (str ''hi'') [])
   = Inr (str ''I apologize, but I couldn't generate a response. Please try rephrasing your question.'')"
proof -
  let ?r = "reply 200 (str ''OK'') (completion_body (JStr []))"
  let ?cfg = "default_config (Some (str ''hf_token''))"
  have p: "answering ?r (build_request ?cfg (str ''hi'') []) = Inr ?r"
    by (simp add: answering_def)
  have s: "200 \<le> status_code ?r" "status_code ?r < 300"
    by (simp_all add: reply_def)
  have j: "json_result ?r =
      Inr (JObj [(str ''choices'',
        JArr [JObj [(str ''message'', JObj [(str ''content'', JStr [])])]])])"
    by (simp add: reply_def completion_body_def)
  from empty_completion_fallback
         [where post = "answering ?r" and r = ?r and rt = cpython, OF key_set_default p s j]
  show ?thesis by (simp add: fallback_text_def)
qed

text \<open>
  C7, as stated, fails: the body \<open>null\<close> has no \<open>choices\<close> field, but the membership test
  of line 189 raises a \<open>TypeError\<close> on it, and the client returns the unexpected-error
  text of the last handler, which does not start like the unexpected-format warning and
  does not contain the body.
\<close>

theorem null_body_counterexample:
  "fst (query_huggingface (default_config (Some (str ''hf_token''))) cpython
          (answering (reply 200 (str ''OK'') JNull)) (str ''hi'') [])
     = Inr ([9888, 65039]
            @ str '' Unexpected error: argument of type 'NoneType' is not iterable'')
   \<and> \<not> prefix ([9888, 65039] @ str '' Unexpected response format: '')
         ([9888, 65039]
          @ str '' Unexpected error: argument of type 'NoneType' is not iterable'')"
proof -
  let ?r = "reply 200 (str ''OK'') JNull"
  let ?cfg = "default_config (Some (str ''hf_token''))"
  have "answering ?r (build_request ?cfg (str ''hi'') []) = Inr ?r"
    by (simp add: answering_def)
  with key_set_default
  have q: "fst (query_huggingface ?cfg cpython (answering ?r) (str ''hi'') []) =
      Inr (case handle_response cpython ?r of Inr answer \<Rightarrow> answer | Inl e \<Rightarrow> handlers ?cfg e)"
    by (rule query_response)
  have "handle_response cpython ?r = extract_reply cpython JNull"
    by (rule handle_success) (simp_all add: reply_def)
  then have h: "handle_response cpython ?r
      = Inl (TypeError (fault_text cpython (NotContainer JNull)))"
    by (simp add: extract_reply_null)
  have f: "fault_text cpython (NotContainer JNull)
      = str ''argument of type 'NoneType' is not iterable''"
    by (simp add: cpython_def str_def)
  have "fst (query_huggingface ?cfg cpython (answering ?r) (str ''hi'') [])
      = Inr ([9888, 65039] @ str '' Unexpected error: '' @ str ''argument of type 'NoneType' is not iterable'')"
    by (simp add: q h f unexpected_error_text_def)
  then show ?thesis by (simp add: str_def)
qed

text \<open>
  C7, amended.  With a credential, a successful response whose decoded body is an object
  without the key \<open>choices\<close>, or an array or a string in which the membership test
  \<open>"choices" in result\<close> is false, makes the client return the unexpected-format
  warning followed by \<open>str(result)\<close>, the decoded body as Python prints it.
\<close>

theorem missing_choices_warning:
  assumes "key_set cfg" and "post (build_request cfg prompt ctx) = Inr r"
    and "200 \<le> status_code r" and "status_code r < 300"
    and "json_result r = Inr body"
    and "(\<exists>kvs. body = JObj kvs \<and> map_of kvs (str ''choices'') = None) \<or>
         (\<exists>vs. body = JArr vs \<and> JStr (str ''choices'') \<notin> set vs) \<or>
         (\<exists>s. body = JStr s \<and> \<not> str_in (str ''choices'') s)"
  shows "fst (query_huggingface cfg rt post prompt ctx) =
           Inr ([9888, 65039] @ str '' Unexpected response format: '' @ str_json rt body)"
proof -
  have "fst (query_huggingface cfg rt post prompt ctx) =
      Inr (case handle_response rt r of Inr answer \<Rightarrow> answer | Inl e \<Rightarrow> handlers cfg e)"
    using assms(1,2) by (rule query_response)
  moreover have "handle_response rt r = extract_reply rt body"
    using assms(3-5) by (rule handle_success)
  moreover have "py_in rt (str ''choices'') body = Inr False"
    using assms(6) by auto
  then have "extract_reply rt body = Inr (unexpected_format_text (str_json rt body))"
    by (rule extract_reply_not_in)
  ultimately show ?thesis by (simp add: unexpected_format_text_def)
qed

theorem missing_choices_warning_witness:
  "fst (query_huggingface (default_config (Some (str ''hf_token''))) cpython
          (answering (reply 200 (str ''OK'') (JObj [(str ''error'', JStr (str ''nope''))])))
          (str ''hi'') [])
   = Inr ([9888, 65039] @ str '' Unexpected response format: {'error': 'nope'}'')
   \<and> fst (query_huggingface (default_config (Some (str ''hf_token''))) cpython
          (answering (reply 200 (str ''OK'') (JArr [JInt 1, JStr (str ''a'')])))
          (str ''hi'') [])
   = Inr ([9888, 65039] @ str '' Unexpected response format: [1, 'a']'')
   \<and> fst (query_huggingface (default_config (Some (str ''hf_token''))) cpython
          (answering (reply 200 (str ''OK'') (JStr (str ''Bad Gateway''))))
          (str ''hi'') [])
   = Inr ([9888, 65039] @ str '' Unexpected response format: Bad Gateway'')"
proof -
  let ?cfg = "default_config (Some (str ''hf_token''))"
  let ?b1 = "JObj [(str ''error'', JStr (str ''nope''))]"
  let ?b2 = "JArr [JInt 1, JStr (str ''a'')]"
  let ?b3 = "JStr (str ''Bad Gateway'')"
  have p: "answering (reply 200 (str ''OK'') b) (build_request ?cfg (str ''hi'') [])
      = Inr (reply 200 (str ''OK'') b)" for b
    by (simp add: answering_def)
  have s: "200 \<le> status_code (reply 200 (str ''OK'') b)"
    "status_code (reply 200 (str ''OK'') b) < 300"
    "json_result (reply 200 (str ''OK'') b) = Inr b" for b
    by (simp_all add: reply_def)
  have c1: "(\<exists>kvs. ?b1 = JObj kvs \<and> map_of kvs (str ''choices'') = None) \<or>
         (\<exists>vs. ?b1 = JArr vs \<and> JStr (str ''choices'') \<notin> set vs) \<or>
         (\<exists>s. ?b1 = JStr s \<and> \<not> str_in (str ''choices'') s)"
    by (simp add: str_def)
  have c2: "(\<exists>kvs. ?b2 = JObj kvs \<and> map_of kvs (str ''choices'') = None) \<or>
         (\<exists>vs. ?b2 = JArr vs \<and> JStr (str ''choices'') \<notin> set vs) \<or>
         (\<exists>s. ?b2 = JStr s \<and> \<not> str_in (str ''choices'') s)"
    by (simp add: str_def)
  have c3: "(\<exists>kvs. ?b3 = JObj kvs \<and> map_of kvs (str ''choices'') = None) \<or>
         (\<exists>vs. ?b3 = JArr vs \<and> JStr (str ''choices'') \<notin> set vs) \<or>
         (\<exists>s. ?b3 = JStr s \<and> \<not> str_in (str ''choices'') s)"
    by (simp add: str_in_def str_def sublist_Cons_right)
  have e: "str_json cpython ?b1 = str ''{'error': 'nope'}''"
    "str_json cpython ?b2 = str ''[1, 'a']''"
    "str_json cpython ?b3 = str ''Bad Gateway''"
    by (simp_all add: cpython_def show_json_def printable_ascii_def repr_str_def
        str_int_def str_nat.simps str_def)
  from missing_choices_warning
         [where post = "answering (reply 200 (str ''OK'') ?b1)" and rt = cpython,
          OF key_set_default p s c1]
  have "fst (query_huggingface ?cfg cpython (answering (reply 200 (str ''OK'') ?b1)) (str ''hi'') [])
      = Inr ([9888, 65039] @ str '' Unexpected response format: '' @ str ''{'error': 'nope'}'')"
    unfolding e .
  moreover
  from missing_choices_warning
         [where post = "answering (reply 200 (str ''OK'') ?b2)" and rt = cpython,
          OF key_set_default p s c2]
  have "fst (query_huggingface ?cfg cpython (answering (reply 200 (str ''OK'') ?b2)) (str ''hi'') [])
      = Inr ([9888, 65039] @ str '' Unexpected response format: '' @ str ''[1, 'a']'')"
    unfolding e .
  moreover
  from missing_choices_warning
         [where post = "answering (reply 200 (str ''OK'') ?b3)" and rt = cpython,
          OF key_set_default p s c3]
  have "fst (query_huggingface ?cfg cpython (answering (reply 200 (str ''OK'') ?b3)) (str ''hi'') [])
      = Inr ([9888, 65039] @ str '' Unexpected response format: '' @ str ''Bad Gateway'')"
    unfolding e .
  ultimately show ?thesis by (simp add: str_def)
qed

text \<open>
  C8.  Every request the client posts has a non-empty message sequence whose entry at
  position 0 is the system preamble.  In every session, that is after any sequence of
  submissions and clear actions from the empty store, every entry of the store has the
  role \<open>user\<close> or \<open>assistant\<close>, so none has the role \<open>system\<close>.
\<close>

theorem system_preamble_first:
  "(\<forall>req \<in> set (snd (query_huggingface cfg rt post prompt ctx)).
      messages (req_json req) \<noteq> [] \<and>
      messages (req_json req) ! 0 = \<lparr>role = str ''system'', content = SYSTEM_PROMPT\<rparr>)
   \<and> (\<forall>m \<in> set (ss_messages (run cfg rt initial_state evs)).
        (role m = str ''user'' \<or> role m = str ''assistant'') \<and> role m \<noteq> str ''system'')"
proof -
  have "\<forall>m \<in> set (ss_messages (run cfg rt initial_state evs)). store_role m"
    by (rule run_roles) (simp add: initial_state_def)
  moreover have "role m \<noteq> str ''system''" if "store_role m" for m
    using that by (auto simp: store_role_def str_def)
  ultimately have "\<forall>m \<in> set (ss_messages (run cfg rt initial_state evs)).
        (role m = str ''user'' \<or> role m = str ''assistant'') \<and> role m \<noteq> str ''system''"
    unfolding store_role_def by blast
  moreover have "\<forall>req \<in> set (snd (query_huggingface cfg rt post prompt ctx)).
      messages (req_json req) \<noteq> [] \<and>
      messages (req_json req) ! 0 = \<lparr>role = str ''system'', content = SYSTEM_PROMPT\<rparr>"
    by (cases "key_set cfg")
       (simp_all add: query_huggingface_def Let_def build_request_def build_messages_eq)
  ultimately show ?thesis by blast
qed

theorem system_preamble_first_witness:
  "build_request (default_config (Some (str ''hf_token''))) (str ''hi'') []
     \<in> set (snd (query_huggingface (default_config (Some (str ''hf_token''))) cpython
                (answering (reply 503 (str ''Service Unavailable'') JNull)) (str ''hi'') []))
   \<and> messages (req_json (build_request (default_config (Some (str ''hf_token''))) (str ''hi'') [])) ! 0
       = \<lparr>role = str ''system'', content = SYSTEM_PROMPT\<rparr>
   \<and> user_msg (str ''hi'')
     \<in> set (ss_messages (run (default_config (Some (str ''hf_token''))) cpython initial_state
                [Clear, Ask True (str ''hi'') (answering (reply 503 (str ''Service Unavailable'') JNull))]))
   \<and> role (user_msg (str ''hi'')) \<noteq> str ''system''"
proof -
  let ?cfg = "default_config (Some (str ''hf_token''))"
  let ?ep = "answering (reply 503 (str ''Service Unavailable'') JNull)"
  let ?evs = "[Clear, Ask True (str ''hi'') ?ep]"
  have a: "build_request ?cfg (str ''hi'') [] \<in> set (snd (query_huggingface ?cfg cpython ?ep (str ''hi'') []))"
    by (simp add: query_posted [OF key_set_default])
  have "str ''hi'' \<noteq> []" by (simp add: str_def)
  from process_input_store [OF this key_set_default, of cpython ?ep "clear_conversation initial_state" True]
  have b: "user_msg (str ''hi'') \<in> set (ss_messages (run ?cfg cpython initial_state ?evs))"
    by auto
  from system_preamble_first
         [where cfg = ?cfg and rt = cpython and post = ?ep and prompt = "str ''hi''" and ctx = "[]"
            and evs = ?evs]
  have c: "\<forall>req \<in> set (snd (query_huggingface ?cfg cpython ?ep (str ''hi'') [])).
      messages (req_json req) ! 0 = \<lparr>role = str ''system'', content = SYSTEM_PROMPT\<rparr>"
    and d: "\<forall>m \<in> set (ss_messages (run ?cfg cpython initial_state ?evs)). role m \<noteq> str ''system''"
    by blast+
  from a c b d show ?thesis by blast
qed

text \<open>
  C9.  No exception leaves the client, and it always returns a string (lemmas
  \<open>query_returns\<close>, \<open>process_input_no_exception\<close>).  But the string is not always a
  message a user can read: a successful response whose \<open>content\<close> is three spaces passes
  the test \<open>if message_content:\<close> of line 191, which precedes \<open>strip()\<close>, and the client
  returns the empty string, where empty content gets the fallback text of line 194.  By
  \<open>query_reply_empty\<close> this is the only way to an empty reply.
\<close>

theorem blank_completion_empty_reply:
  "fst (query_huggingface (default_config (Some (str ''hf_token''))) cpython
          (answering (reply 200 (str ''OK'') (completion_body (JStr (str ''   '')))))
          (str ''hi'') [])
   = Inr []"
proof -
  let ?r = "reply 200 (str ''OK'') (completion_body (JStr (str ''   '')))"
  let ?cfg = "default_config (Some (str ''hf_token''))"
  have "answering ?r (build_request ?cfg (str ''hi'') []) = Inr ?r"
    by (simp add: answering_def)
  with key_set_default
  have q: "fst (query_huggingface ?cfg cpython (answering ?r) (str ''hi'') []) =
      Inr (case handle_response cpython ?r of Inr answer \<Rightarrow> answer | Inl e \<Rightarrow> handlers ?cfg e)"
    by (rule query_response)
  have "handle_response cpython ?r = extract_reply cpython (completion_body (JStr (str ''   '')))"
    by (rule handle_success) (simp_all add: reply_def)
  also have "\<dots> = Inr (strip (str ''   ''))"
    unfolding completion_body_def
    by (rule extract_reply_content
          [where ckvs = "[(str ''message'', JObj [(str ''content'', JStr (str ''   ''))])]"
             and rest = "[]" and mkvs = "[(str ''content'', JStr (str ''   ''))]"])
       (simp_all add: str_def)
  also have "strip (str ''   '') = []"
    by (simp add: strip_def str_def is_space_def)
  finally show ?thesis using q by simp
qed

text \<open>
  C10.  The message sequence of a request is the system preamble, then one entry for each
  line of the context that starts with \<open>User:\<close> or \<open>Assistant:\<close>, in the order of the
  lines, then the prompt; lines without such a prefix contribute nothing.  The content of
  an entry is its line with every occurrence of the matched prefix cut out (what
  \<open>replace\<close> computes, for either prefix and any line), stripped.
\<close>

theorem history_reconstruction:
  "build_messages prompt ctx =
     \<lparr>role = str ''system'', content = SYSTEM_PROMPT\<rparr>
     # map history_entry (filter tagged (split 10 ctx))
     @ [\<lparr>role = str ''user'', content = prompt\<rparr>]
   \<and> removes_all (str ''User:'') line (replace line (str ''User:'') [])
   \<and> removes_all (str ''Assistant:'') line (replace line (str ''Assistant:'') [])"
  by (simp add: build_messages_eq replace_removes_all str_def)

theorem history_reconstruction_witness:
  "build_messages (str ''And now?'')
     (str ''User: hi User: there'' @ [10] @ str ''  and more'' @ [10] @ str ''Assistant: yo'')
   = [\<lparr>role = str ''system'', content = SYSTEM_PROMPT\<rparr>,
      \<lparr>role = str ''user'', content = str ''hi  there''\<rparr>,
      \<lparr>role = str ''assistant'', content = str ''yo''\<rparr>,
      \<lparr>role = str ''user'', content = str ''And now?''\<rparr>]"
proof -
  let ?ctx = "str ''User: hi User: there'' @ [10] @ str ''  and more'' @ [10] @ str ''Assistant: yo''"
  have s: "split 10 ?ctx = [str ''User: hi User: there'', str ''  and more'', str ''Assistant: yo'']"
    by (simp add: str_def)
  have t: "tagged (str ''User: hi User: there'')" "\<not> tagged (str ''  and more'')"
    "tagged (str ''Assistant: yo'')"
    by (simp_all add: tagged_def startswith_def str_def)
  have p: "startswith (str ''User: hi User: there'') (str ''User:'')"
    "\<not> startswith (str ''Assistant: yo'') (str ''User:'')"
    by (simp_all add: startswith_def str_def)
  have r: "replace (str ''User: hi User: there'') (str ''User:'') [] = str '' hi  there''"
    "replace (str ''Assistant: yo'') (str ''Assistant:'') [] = str '' yo''"
    by (simp_all add: str_def replace_Nil replace_Cons replace_hit)
  have w: "strip (str '' hi  there'') = str ''hi  there''" "strip (str '' yo'') = str ''yo''"
    by (simp_all add: str_def strip_def is_space_def)
  have u: "history_entry (str ''User: hi User: there'')
      = \<lparr>role = str ''user'', content = str ''hi  there''\<rparr>"
    by (simp add: history_entry_def p r w)
  have a: "history_entry (str ''Assistant: yo'')
      = \<lparr>role = str ''assistant'', content = str ''yo''\<rparr>"
    by (simp add: history_entry_def p r w)
  have e: "map history_entry (filter tagged (split 10 ?ctx))
      = [\<lparr>role = str ''user'', content = str ''hi  there''\<rparr>,
         \<lparr>role = str ''assistant'', content = str ''yo''\<rparr>]"
    by (simp only: s t u a list.map filter.simps if_True if_False)
  from history_reconstruction [where prompt = "str ''And now?''" and ctx = ?ctx and line = "[]"]
  have "build_messages (str ''And now?'') ?ctx =
     \<lparr>role = str ''system'', content = SYSTEM_PROMPT\<rparr>
     # map history_entry (filter tagged (split 10 ?ctx))
     @ [\<lparr>role = str ''user'', content = str ''And now?''\<rparr>]"
    by (rule conjunct1)
  then show ?thesis unfolding e by simp
qed

end
